theory Spec2Isabelle
  imports Complex_Main "HOL-Library.Multiset"
begin

section \<open>Python values used by the services\<close>

text \<open>
  Strings are lists of characters, Python's unbounded integers are \<open>int\<close>, and a
  \<open>datetime\<close> is a point on an integer time line.

  A float is the real number it denotes, and floats are compared as these numbers are.
  The arithmetic of floats rounds, so it is not the arithmetic of the reals: the
  machine's multiplication, addition and subtraction are taken as they are, as the
  three operations of a \<open>float_arith\<close>, and no law is assumed of them. The literals
  \<open>0.6\<close> and \<open>0.4\<close> denote the doubles nearest to 6/10 and 4/10.
\<close>

type_synonym datetime = int

record float_arith =
  float_mul :: "real \<Rightarrow> real \<Rightarrow> real"
  float_add :: "real \<Rightarrow> real \<Rightarrow> real"
  float_sub :: "real \<Rightarrow> real \<Rightarrow> real"

definition float_0_6 :: real where
  "float_0_6 = 5404319552844595 / 9007199254740992"

definition float_0_4 :: real where
  "float_0_4 = 3602879701896397 / 9007199254740992"

text \<open>The slice \<open>xs[:n]\<close>: a negative bound counts from the end of the list.\<close>

definition py_take :: "int \<Rightarrow> 'a list \<Rightarrow> 'a list" where
  "py_take n xs =
     (if 0 \<le> n then take (nat n) xs else take (nat (int (length xs) + n)) xs)"

text \<open>
  A \<open>dict\<close> keeps its keys in insertion order; assigning to a key that is present
  replaces the value where the key stands.
\<close>

fun dict_set :: "'k \<Rightarrow> 'v \<Rightarrow> ('k \<times> 'v) list \<Rightarrow> ('k \<times> 'v) list" where
  "dict_set k v [] = [(k, v)]"
| "dict_set k v ((k', v') # d) =
     (if k' = k then (k', v) # d else (k', v') # dict_set k v d)"

section \<open>The search result model (document.py)\<close>

text \<open>
  \<open>DocumentSearchResult\<close>: \<open>id\<close>, \<open>filename\<close> and \<open>created_at\<close> are required
  fields, the other three are optional. An object of the class has passed the
  validation of its constructor (see \<open>DocumentSearchResult_init\<close> below), so its
  \<open>created_at\<close> is a \<open>datetime\<close>.
\<close>

record DocumentSearchResult =
  id_sr :: string
  filename_sr :: string
  content_sr :: "string option"
  similarity_score :: "real option"
  relevance_score :: "real option"
  created_at_sr :: datetime

section \<open>Hybrid fusion (search.py, \<open>_hybrid_search\<close>)\<close>

text \<open>The expression \<open>score or 0\<close>: \<open>None\<close> and \<open>0.0\<close> both give \<open>0\<close>.\<close>

definition score_or_0 :: "real option \<Rightarrow> real" where
  "score_or_0 s = (case s of None \<Rightarrow> 0 | Some x \<Rightarrow> x)"

record scores =
  result :: DocumentSearchResult
  vector_score :: real
  fulltext_score :: real

type_synonym combined = "(string \<times> scores) list"

text \<open>First loop: every vector result (re)assigns the entry of its id.\<close>

fun add_vector_results :: "combined \<Rightarrow> DocumentSearchResult list \<Rightarrow> combined" where
  "add_vector_results d [] = d"
| "add_vector_results d (r # rs) =
     add_vector_results
       (dict_set (id_sr r)
          \<lparr>result = r, vector_score = score_or_0 (similarity_score r), fulltext_score = 0\<rparr> d)
       rs"

text \<open>
  Second loop: a full-text result whose id is present only sets the entry's
  \<open>fulltext_score\<close>; otherwise it creates the entry.
\<close>

fun add_fulltext_results :: "combined \<Rightarrow> DocumentSearchResult list \<Rightarrow> combined" where
  "add_fulltext_results d [] = d"
| "add_fulltext_results d (r # rs) =
     add_fulltext_results
       (case map_of d (id_sr r) of
          Some sc \<Rightarrow>
            dict_set (id_sr r) (sc\<lparr>fulltext_score := score_or_0 (relevance_score r)\<rparr>) d
        | None \<Rightarrow>
            dict_set (id_sr r)
              \<lparr>result = r, vector_score = 0,
               fulltext_score = score_or_0 (relevance_score r)\<rparr> d)
       rs"

definition combined_results ::
  "DocumentSearchResult list \<Rightarrow> DocumentSearchResult list \<Rightarrow> combined" where
  "combined_results vector_results fulltext_results =
     add_fulltext_results (add_vector_results [] vector_results) fulltext_results"

text \<open>
  Third loop: the hybrid score of every entry, written into the result's
  \<open>similarity_score\<close> and paired with the result.
\<close>

text \<open>\<open>(scores["vector_score"] * 0.6) + (scores["fulltext_score"] * 0.4)\<close>\<close>

definition hybrid_score :: "float_arith \<Rightarrow> scores \<Rightarrow> real" where
  "hybrid_score a sc =
     float_add a (float_mul a (vector_score sc) float_0_6)
                 (float_mul a (fulltext_score sc) float_0_4)"

definition hybrid_results ::
  "float_arith \<Rightarrow> DocumentSearchResult list \<Rightarrow> DocumentSearchResult list
     \<Rightarrow> (DocumentSearchResult \<times> real) list" where
  "hybrid_results a vector_results fulltext_results =
     map (\<lambda>(doc_id, sc).
            ((result sc)\<lparr>similarity_score := Some (hybrid_score a sc)\<rparr>, hybrid_score a sc))
       (combined_results vector_results fulltext_results)"

text \<open>
  \<open>sort(key = score, reverse = True)\<close> is stable: equal scores keep their order.
  The insertion sort \<open>sort_key\<close> on the negated score does the same.
\<close>

definition sort_by_score_desc ::
  "(DocumentSearchResult \<times> real) list \<Rightarrow> (DocumentSearchResult \<times> real) list" where
  "sort_by_score_desc xs = sort_key (\<lambda>x. - snd x) xs"

text \<open>The part of \<open>_hybrid_search\<close> after the two sub-searches have returned.\<close>

definition fuse ::
  "float_arith \<Rightarrow> DocumentSearchResult list \<Rightarrow> DocumentSearchResult list \<Rightarrow> int
     \<Rightarrow> DocumentSearchResult list" where
  "fuse a vector_results fulltext_results limit =
     map fst
       (py_take limit (sort_by_score_desc (hybrid_results a vector_results fulltext_results)))"

text \<open>
  The score a candidate list gives a document id: that of the list's last entry with
  this id (a later entry overwrites an earlier one in the loops above), and 0 when the
  list has no such entry.
\<close>

definition vector_score_of :: "DocumentSearchResult list \<Rightarrow> string \<Rightarrow> real" where
  "vector_score_of rs doc_id =
     (case filter (\<lambda>r. id_sr r = doc_id) rs of
        [] \<Rightarrow> 0
      | x # xs \<Rightarrow> score_or_0 (similarity_score (last (x # xs))))"

definition fulltext_score_of :: "DocumentSearchResult list \<Rightarrow> string \<Rightarrow> real" where
  "fulltext_score_of rs doc_id =
     (case filter (\<lambda>r. id_sr r = doc_id) rs of
        [] \<Rightarrow> 0
      | x # xs \<Rightarrow> score_or_0 (relevance_score (last (x # xs))))"


subsection \<open>A small example: two vector candidates, two full-text candidates\<close>

text \<open>
  Double arithmetic on the operands of the examples of this development. All the
  products, sums and differences that occur there are doubles themselves, so that the
  machine computes them without rounding, except \<open>0.75 * 0.4\<close>, which it rounds up
  to 0.30000000000000004.
\<close>

definition ex_arith :: float_arith where
  "ex_arith =
     \<lparr>float_mul = (\<lambda>x y. if x = 3 / 4 \<and> y = float_0_4
                         then 5404319552844596 / 18014398509481984 else x * y),
      float_add = (\<lambda>x y. x + y),
      float_sub = (\<lambda>x y. x - y)\<rparr>"

definition sr :: "string \<Rightarrow> real option \<Rightarrow> real option \<Rightarrow> DocumentSearchResult" where
  "sr i v f = \<lparr>id_sr = i, filename_sr = i, content_sr = None, similarity_score = v,
              relevance_score = f, created_at_sr = 900\<rparr>"



section \<open>Exceptions\<close>

text \<open>
  An exception is its class and its message (\<open>str(e)\<close>). Every \<open>raise\<close> of the
  source is a result \<open>Inl\<close> of the model. The messages of exceptions that the
  libraries raise are shortened.
\<close>

datatype exc_class =
    ValueError | AttributeError | TypeError | IndexError | TimeoutError | FileNotFoundError
  | ValidationError | ArgumentError
  | OperationalError | IntegrityError | ProgrammingError
  | CollaboratorError | PlainException | HTTPException int

datatype error = Error exc_class string

fun exc_class_of :: "error \<Rightarrow> exc_class" where
  "exc_class_of (Error c m) = c"

fun str_of_error :: "error \<Rightarrow> string" where
  "str_of_error (Error c m) = m"

section \<open>The relational store (database.py)\<close>

text \<open>
  A table is the list of its columns, as \<open>init_db\<close> declares them, and its rows; a row
  gives a value to every column. A statement that names a column the table does not
  have fails, as the database rejects it; so does an insert that leaves a
  \<open>NOT NULL\<close> column without value or repeats a primary key.
\<close>

datatype sqlval = Null | Str string | Num int | Flt real

type_synonym row = "(string \<times> sqlval) list"

datatype col_default = NoDefault | CurrentTimestamp

record column =
  col_name :: string
  col_not_null :: bool
  col_default :: col_default

record table =
  columns :: "column list"
  rows :: "row list"

definition col :: "row \<Rightarrow> string \<Rightarrow> sqlval" where
  "col r c = (case map_of r c of Some v \<Rightarrow> v | None \<Rightarrow> Null)"

definition has_column :: "table \<Rightarrow> string \<Rightarrow> bool" where
  "has_column t c = (c \<in> set (map col_name (columns t)))"

definition unknown_column :: "string \<Rightarrow> error" where
  "unknown_column c = Error OperationalError (''Unknown column '' @ c)"

definition sql_insert :: "datetime \<Rightarrow> (string \<times> sqlval) list \<Rightarrow> table \<Rightarrow> error + table" where
  "sql_insert now vals t =
     (case filter (\<lambda>c. \<not> has_column t c) (map fst vals) of
        c # cs \<Rightarrow> Inl (unknown_column c)
      | [] \<Rightarrow>
          (let r = map (\<lambda>c. (col_name c,
                               (case map_of vals (col_name c) of
                                  Some v \<Rightarrow> v
                                | None \<Rightarrow>
                                    (case col_default c of
                                       CurrentTimestamp \<Rightarrow> Num now
                                     | NoDefault \<Rightarrow> Null))))
                       (columns t)
           in if list_ex (\<lambda>c. col_not_null c \<and> col r (col_name c) = Null) (columns t)
              then Inl (Error IntegrityError ''Column cannot be null'')
              else if list_ex (\<lambda>r'. col r' ''id'' = col r ''id'') (rows t)
              then Inl (Error IntegrityError ''Duplicate entry for key PRIMARY'')
              else Inr (t\<lparr>rows := rows t @ [r]\<rparr>)))"

text \<open>\<open>UPDATE t SET sets WHERE wcol = wval\<close>\<close>

definition sql_update ::
  "(string \<times> sqlval) list \<Rightarrow> string \<Rightarrow> sqlval \<Rightarrow> table \<Rightarrow> error + table" where
  "sql_update sets wcol wval t =
     (case filter (\<lambda>c. \<not> has_column t c) (map fst sets @ [wcol]) of
        c # cs \<Rightarrow> Inl (unknown_column c)
      | [] \<Rightarrow>
          Inr (t\<lparr>rows :=
                 map (\<lambda>r. if col r wcol = wval
                           then map (\<lambda>(c, v). (c, (case map_of sets c of
                                                      Some v' \<Rightarrow> v' | None \<Rightarrow> v))) r
                           else r)
                   (rows t)\<rparr>))"

text \<open>\<open>SELECT cols FROM t WHERE wcol = wval\<close>: the selected tuples.\<close>

definition sql_select ::
  "string list \<Rightarrow> string \<Rightarrow> sqlval \<Rightarrow> table \<Rightarrow> error + sqlval list list" where
  "sql_select cols wcol wval t =
     (case filter (\<lambda>c. \<not> has_column t c) (cols @ [wcol]) of
        c # cs \<Rightarrow> Inl (unknown_column c)
      | [] \<Rightarrow> Inr (map (\<lambda>r. map (col r) cols) (filter (\<lambda>r. col r wcol = wval) (rows t))))"

text \<open>
  \<open>LIMIT n\<close> takes the first \<open>n\<close> rows; the database rejects a negative \<open>n\<close>.
\<close>

definition sql_limit :: "int \<Rightarrow> 'a list \<Rightarrow> error + 'a list" where
  "sql_limit n xs =
     (if n < 0 then Inl (Error ProgrammingError ''You have an error in your SQL syntax'')
      else Inr (take (nat n) xs))"

record tables =
  documents :: table
  document_embeddings :: table
  search_logs :: table

text \<open>The three tables of \<open>init_db\<close> that the services below use, with their columns.\<close>

definition documents_columns :: "column list" where
  "documents_columns =
     [\<lparr>col_name = ''id'', col_not_null = True, col_default = NoDefault\<rparr>,
      \<lparr>col_name = ''filename'', col_not_null = True, col_default = NoDefault\<rparr>,
      \<lparr>col_name = ''file_path'', col_not_null = True, col_default = NoDefault\<rparr>,
      \<lparr>col_name = ''file_type'', col_not_null = True, col_default = NoDefault\<rparr>,
      \<lparr>col_name = ''file_size'', col_not_null = True, col_default = NoDefault\<rparr>,
      \<lparr>col_name = ''content'', col_not_null = False, col_default = NoDefault\<rparr>,
      \<lparr>col_name = ''content_hash'', col_not_null = False, col_default = NoDefault\<rparr>,
      \<lparr>col_name = ''created_at'', col_not_null = False, col_default = CurrentTimestamp\<rparr>,
      \<lparr>col_name = ''updated_at'', col_not_null = False, col_default = CurrentTimestamp\<rparr>]"

definition document_embeddings_columns :: "column list" where
  "document_embeddings_columns =
     [\<lparr>col_name = ''id'', col_not_null = True, col_default = NoDefault\<rparr>,
      \<lparr>col_name = ''document_id'', col_not_null = True, col_default = NoDefault\<rparr>,
      \<lparr>col_name = ''embedding_vector'', col_not_null = True, col_default = NoDefault\<rparr>,
      \<lparr>col_name = ''embedding_model'', col_not_null = True, col_default = NoDefault\<rparr>,
      \<lparr>col_name = ''created_at'', col_not_null = False, col_default = CurrentTimestamp\<rparr>]"

definition search_logs_columns :: "column list" where
  "search_logs_columns =
     [\<lparr>col_name = ''id'', col_not_null = True, col_default = NoDefault\<rparr>,
      \<lparr>col_name = ''query'', col_not_null = True, col_default = NoDefault\<rparr>,
      \<lparr>col_name = ''search_type'', col_not_null = True, col_default = NoDefault\<rparr>,
      \<lparr>col_name = ''results_count'', col_not_null = True, col_default = NoDefault\<rparr>,
      \<lparr>col_name = ''execution_time_ms'', col_not_null = True, col_default = NoDefault\<rparr>,
      \<lparr>col_name = ''user_id'', col_not_null = False, col_default = NoDefault\<rparr>,
      \<lparr>col_name = ''created_at'', col_not_null = False, col_default = CurrentTimestamp\<rparr>]"

definition init_db :: tables where
  "init_db =
     \<lparr>documents = \<lparr>columns = documents_columns, rows = []\<rparr>,
      document_embeddings = \<lparr>columns = document_embeddings_columns, rows = []\<rparr>,
      search_logs = \<lparr>columns = search_logs_columns, rows = []\<rparr>\<rparr>"

section \<open>The world the services run in\<close>

text \<open>
  The collaborators the services call but do not define: the UUID generator, the text
  extractors, the digest, the embedding model (its result already serialised with
  \<open>str\<close>), the store's vector distance and full-text relevance, the machine's float
  arithmetic, and the clock reading of one search request. The last field says whether
  the session's \<open>execute\<close> takes a statement given as a plain string, as older
  versions of the database toolkit do, or raises on it, as newer ones do; the source
  does not say which version it runs on.
\<close>

record env =
  uuid_of :: "nat \<Rightarrow> string"
  upload_dir :: string
  extract_pdf_text :: "string \<Rightarrow> error + string"
  extract_image_text :: "string \<Rightarrow> error + string"
  decode_utf8 :: "string \<Rightarrow> error + string"
  sha256_hexdigest :: "string \<Rightarrow> string"
  encode :: "string \<Rightarrow> error + string"
  distance :: "string \<Rightarrow> string \<Rightarrow> real"
  match_against :: "string \<Rightarrow> string \<Rightarrow> real"
  arith :: float_arith
  elapsed_ms :: int
  execute_accepts_str :: bool

text \<open>
  The state: the committed tables, which every connection reads; the request session's
  view of them, with its uncommitted statements; the upload directory; the number of
  UUIDs drawn; the background tasks created and not yet run (document id and content);
  and the database clock.
\<close>

record world =
  committed :: tables
  session :: tables
  files :: "(string \<times> string) list"
  uuid_next :: nat
  tasks :: "(string \<times> string option) list"
  clock :: datetime

definition commit :: "world \<Rightarrow> world" where
  "commit w = w\<lparr>committed := session w\<rparr>"

definition uuid4 :: "env \<Rightarrow> world \<Rightarrow> string \<times> world" where
  "uuid4 e w = (uuid_of e (uuid_next w), w\<lparr>uuid_next := uuid_next w + 1\<rparr>)"

definition opt_str :: "string option \<Rightarrow> sqlval" where
  "opt_str s = (case s of None \<Rightarrow> Null | Some x \<Rightarrow> Str x)"

text \<open>Truth value of an optional string: \<open>None\<close> and the empty string are false.\<close>

definition truthy :: "string option \<Rightarrow> bool" where
  "truthy s = (case s of None \<Rightarrow> False | Some x \<Rightarrow> x \<noteq> [])"

section \<open>The document model (document.py)\<close>

datatype FileType = PDF | TXT | PNG | JPG | JPEG

fun FileType_value :: "FileType \<Rightarrow> string" where
  "FileType_value PDF = ''pdf''"
| "FileType_value TXT = ''txt''"
| "FileType_value PNG = ''png''"
| "FileType_value JPG = ''jpg''"
| "FileType_value JPEG = ''jpeg''"

text \<open>The enum's constructor call \<open>FileType(value)\<close>.\<close>

definition FileType_of_value :: "string \<Rightarrow> error + FileType" where
  "FileType_of_value v =
     (if v = ''pdf'' then Inr PDF
      else if v = ''txt'' then Inr TXT
      else if v = ''png'' then Inr PNG
      else if v = ''jpg'' then Inr JPG
      else if v = ''jpeg'' then Inr JPEG
      else Inl (Error ValueError (v @ '' is not a valid FileType'')))"

datatype DocumentStatus = PENDING | PROCESSING | COMPLETED | FAILED

fun DocumentStatus_value :: "DocumentStatus \<Rightarrow> string" where
  "DocumentStatus_value PENDING = ''pending''"
| "DocumentStatus_value PROCESSING = ''processing''"
| "DocumentStatus_value COMPLETED = ''completed''"
| "DocumentStatus_value FAILED = ''failed''"

text \<open>\<open>DocumentStatus(row[0])\<close> on a selected column value.\<close>

definition DocumentStatus_of_value :: "sqlval \<Rightarrow> error + DocumentStatus" where
  "DocumentStatus_of_value v =
     (if v = Str ''pending'' then Inr PENDING
      else if v = Str ''processing'' then Inr PROCESSING
      else if v = Str ''completed'' then Inr COMPLETED
      else if v = Str ''failed'' then Inr FAILED
      else Inl (Error ValueError ''not a valid DocumentStatus''))"

record DocumentCreate =
  filename_dc :: string
  file_type_dc :: FileType
  file_size_dc :: int
  content_dc :: "string option"
  content_hash_dc :: "string option"

record DocumentResponse =
  id_dr :: string
  filename_dr :: string
  file_path_dr :: string
  file_type_dr :: FileType
  file_size_dr :: int
  content_dr :: "string option"
  content_hash_dr :: "string option"
  status_dr :: DocumentStatus
  created_at_dr :: datetime
  updated_at_dr :: datetime

section \<open>The document processor (document_processor.py)\<close>

subsection \<open>File type from the file name\<close>

text \<open>
  \<open>Path(filename).suffix.lower()\<close> on a POSIX path. The name of a path is its last
  component, where empty components and \<open>.\<close> components do not count; the suffix
  of a name starts at its last dot, unless that dot is the first or the last character
  of the name. \<open>lower\<close> maps the ASCII capitals.
\<close>

fun split_on :: "char \<Rightarrow> string \<Rightarrow> string \<Rightarrow> string list" where
  "split_on sep cur [] = [rev cur]"
| "split_on sep cur (c # cs) =
     (if c = sep then rev cur # split_on sep [] cs else split_on sep (c # cur) cs)"

definition path_name :: "string \<Rightarrow> string" where
  "path_name p =
     (case rev (filter (\<lambda>part. part \<noteq> [] \<and> part \<noteq> ''.'') (split_on CHR ''/'' [] p)) of
        [] \<Rightarrow> []
      | n # ns \<Rightarrow> n)"

definition path_suffix :: "string \<Rightarrow> string" where
  "path_suffix p =
     (let name = path_name p;
          after_dot = rev (takeWhile (\<lambda>c. c \<noteq> CHR ''.'') (rev name))
      in if CHR ''.'' \<in> set name \<and> length after_dot + 1 < length name \<and> after_dot \<noteq> []
         then CHR ''.'' # after_dot
         else [])"

definition lower_char :: "char \<Rightarrow> char" where
  "lower_char c =
     (let n = (of_char c :: nat) in if 65 \<le> n \<and> n \<le> 90 then char_of (n + 32) else c)"

definition lower :: "string \<Rightarrow> string" where
  "lower s = map lower_char s"

definition get_file_type :: "string \<Rightarrow> error + FileType" where
  "get_file_type filename =
     (let ext = lower (path_suffix filename)
      in if ext = ''.pdf'' then Inr PDF
         else if ext = ''.txt'' then Inr TXT
         else if ext \<in> set [''.png'', ''.jpg'', ''.jpeg''] then FileType_of_value (tl ext)
         else Inl (Error ValueError (''Unsupported file type: '' @ ext)))"

subsection \<open>Saving, extracting, storing\<close>

text \<open>
  The file is written into the upload directory under a fresh name. When the file name
  has a directory part, the path leads into a directory that does not exist (its name
  starts with the fresh UUID) and \<open>open\<close> raises.
\<close>

definition save_file ::
  "env \<Rightarrow> world \<Rightarrow> string \<Rightarrow> string \<Rightarrow> (error + string) \<times> world" where
  "save_file e w file_content filename =
     (let (u, w1) = uuid4 e w;
          unique_filename = u @ ''_'' @ filename;
          file_path = upload_dir e @ ''/'' @ unique_filename
      in if CHR ''/'' \<in> set filename
         then (Inl (Error FileNotFoundError (''No such file or directory: '' @ file_path)), w1)
         else (Inr file_path, w1\<lparr>files := files w1 @ [(file_path, file_content)]\<rparr>))"

text \<open>Any exception of an extractor is caught: the content is then \<open>None\<close>.\<close>

definition extract_text :: "env \<Rightarrow> string \<Rightarrow> FileType \<Rightarrow> string option" where
  "extract_text e file_content file_type =
     (case (if file_type = PDF then map_sum id Some (extract_pdf_text e file_content)
            else if file_type = TXT then map_sum id Some (decode_utf8 e file_content)
            else if file_type \<in> set [PNG, JPG, JPEG]
              then map_sum id Some (extract_image_text e file_content)
            else Inr None) of
        Inl err \<Rightarrow> None
      | Inr content \<Rightarrow> content)"

definition store_document ::
  "world \<Rightarrow> string \<Rightarrow> DocumentCreate \<Rightarrow> string \<Rightarrow> error + world" where
  "store_document w document_id document_data file_path =
     (case sql_insert (clock w)
             [(''id'', Str document_id),
              (''filename'', Str (filename_dc document_data)),
              (''file_path'', Str file_path),
              (''file_type'', Str (FileType_value (file_type_dc document_data))),
              (''file_size'', Num (file_size_dc document_data)),
              (''content'', opt_str (content_dc document_data)),
              (''content_hash'', opt_str (content_hash_dc document_data))]
             (documents (session w)) of
        Inl err \<Rightarrow> Inl err
      | Inr t \<Rightarrow> Inr (commit (w\<lparr>session := (session w)\<lparr>documents := t\<rparr>\<rparr>)))"

subsection \<open>\<open>process_document\<close>\<close>

definition failed_to_process :: "error \<Rightarrow> error" where
  "failed_to_process err =
     Error PlainException (''Failed to process document: '' @ str_of_error err)"

text \<open>
  The embedding task is created, not awaited: the function returns with the task
  pending in \<open>tasks\<close>.
\<close>

definition process_document ::
  "env \<Rightarrow> world \<Rightarrow> string \<Rightarrow> string \<Rightarrow> (error + DocumentResponse) \<times> world" where
  "process_document e w file_content filename =
     (case get_file_type filename of
        Inl err \<Rightarrow> (Inl (failed_to_process err), w)
      | Inr file_type \<Rightarrow>
          (case save_file e w file_content filename of
             (Inl err, w1) \<Rightarrow> (Inl (failed_to_process err), w1)
           | (Inr file_path, w1) \<Rightarrow>
               (let content = extract_text e file_content file_type;
                    content_hash =
                      (if truthy content then Some (sha256_hexdigest e (the content))
                       else None);
                    (document_id, w2) = uuid4 e w1;
                    document_data =
                      \<lparr>filename_dc = filename, file_type_dc = file_type,
                       file_size_dc = int (length file_content),
                       content_dc = content, content_hash_dc = content_hash\<rparr>
                in case store_document w2 document_id document_data file_path of
                     Inl err \<Rightarrow> (Inl (failed_to_process err), w2)
                   | Inr w3 \<Rightarrow>
                       (Inr \<lparr>id_dr = document_id, filename_dr = filename,
                             file_path_dr = file_path, file_type_dr = file_type,
                             file_size_dr = int (length file_content),
                             content_dr = content, content_hash_dr = content_hash,
                             status_dr = PROCESSING,
                             created_at_dr = clock w3, updated_at_dr = clock w3\<rparr>,
                        w3\<lparr>tasks := tasks w3 @ [(document_id, content)]\<rparr>))))"

subsection \<open>The background task \<open>_generate_embeddings\<close>\<close>

definition set_status :: "world \<Rightarrow> string \<Rightarrow> string \<Rightarrow> error + world" where
  "set_status w document_id status =
     (case sql_update [(''status'', Str status), (''updated_at'', Num (clock w))]
             ''id'' (Str document_id) (documents (session w)) of
        Inl err \<Rightarrow> Inl err
      | Inr t \<Rightarrow> Inr (w\<lparr>session := (session w)\<lparr>documents := t\<rparr>\<rparr>))"

text \<open>
  The body of the \<open>try\<close> after the guard: a failure comes with the state it left.
  The two statements are committed together, after the second.
\<close>

definition embed_and_complete ::
  "env \<Rightarrow> world \<Rightarrow> string \<Rightarrow> string \<Rightarrow> (error \<times> world) + world" where
  "embed_and_complete e w document_id content =
     (case encode e content of
        Inl err \<Rightarrow> Inl (err, w)
      | Inr embedding_list \<Rightarrow>
          (let (embedding_id, w1) = uuid4 e w
           in case sql_insert (clock w1)
                     [(''id'', Str embedding_id),
                      (''document_id'', Str document_id),
                      (''embedding_vector'', Str embedding_list),
                      (''embedding_model'', Str ''all-MiniLM-L6-v2'')]
                     (document_embeddings (session w1)) of
                Inl err \<Rightarrow> Inl (err, w1)
              | Inr t \<Rightarrow>
                  (let w2 = w1\<lparr>session := (session w1)\<lparr>document_embeddings := t\<rparr>\<rparr>
                   in case set_status w2 document_id ''completed'' of
                        Inl err \<Rightarrow> Inl (err, w2)
                      | Inr w3 \<Rightarrow> Inr (commit w3))))"

text \<open>
  The task returns nothing and raises nothing: its result is the state. The handler's
  own failure is passed over.
\<close>

definition generate_embeddings :: "env \<Rightarrow> world \<Rightarrow> string \<Rightarrow> string option \<Rightarrow> world" where
  "generate_embeddings e w document_id content =
     (if \<not> truthy content then w
      else case embed_and_complete e w document_id (the content) of
             Inr w' \<Rightarrow> w'
           | Inl (err, w') \<Rightarrow>
               (case set_status w' document_id ''failed'' of
                  Inl err' \<Rightarrow> w'
                | Inr w'' \<Rightarrow> commit w''))"

text \<open>The event loop runs the oldest pending task.\<close>

definition run_task :: "env \<Rightarrow> world \<Rightarrow> world" where
  "run_task e w =
     (case tasks w of
        [] \<Rightarrow> w
      | (document_id, content) # ts \<Rightarrow>
          generate_embeddings e (w\<lparr>tasks := ts\<rparr>) document_id content)"

subsection \<open>\<open>get_document_status\<close>\<close>

definition get_document_status :: "world \<Rightarrow> string \<Rightarrow> error + DocumentStatus" where
  "get_document_status w document_id =
     (case sql_select [''status''] ''id'' (Str document_id) (documents (session w)) of
        Inl err \<Rightarrow> Inl err
      | Inr [] \<Rightarrow> Inl (Error ValueError (''Document '' @ document_id @ '' not found''))
      | Inr (r # rs) \<Rightarrow> DocumentStatus_of_value (hd r))"

subsection \<open>An example world: the empty database of \<open>init_db\<close>\<close>

definition ex_uuid_of :: "nat \<Rightarrow> string" where
  "ex_uuid_of n =
     (if n = 0 then ''u0'' else if n = 1 then ''u1'' else if n = 2 then ''u2''
      else if n = 3 then ''u3'' else ''u'' @ replicate n CHR ''x'')"

text \<open>
  An embedding model that fails on the text \<open>boom\<close>, a PDF extractor that fails on
  every file, an OCR that reads nothing.
\<close>

definition ex_env :: env where
  "ex_env =
     \<lparr>uuid_of = ex_uuid_of,
      upload_dir = ''uploads'',
      extract_pdf_text = (\<lambda>b. Inl (Error CollaboratorError ''Failed to extract PDF text'')),
      extract_image_text = (\<lambda>b. Inr []),
      decode_utf8 = (\<lambda>b. Inr b),
      sha256_hexdigest = (\<lambda>s. ''h'' @ s),
      encode = (\<lambda>s. if s = ''boom'' then Inl (Error CollaboratorError ''out of memory'')
                     else Inr (''['' @ s @ '']'')),
      distance = (\<lambda>a b. if a = b then 0 else 1 / 2),
      match_against = (\<lambda>q c. if q = c then 1 else 0),
      arith = ex_arith,
      elapsed_ms = 7,
      execute_accepts_str = True\<rparr>"

definition ex_world :: world where
  "ex_world =
     \<lparr>committed = init_db, session = init_db, files = [], uuid_next = 0, tasks = [],
      clock = 1000\<rparr>"

text \<open>
  For comparison, a database whose \<open>documents\<close> table has a \<open>status\<close> column, which
  \<open>init_db\<close> does not create, holding one document in status \<open>processing\<close>.
\<close>

definition ex_world_with_status :: world where
  "ex_world_with_status =
     (let t = \<lparr>documents =
                 \<lparr>columns = documents_columns
                    @ [\<lparr>col_name = ''status'', col_not_null = False, col_default = NoDefault\<rparr>],
                  rows = [[(''id'', Str ''d1''), (''filename'', Str ''empty.txt''),
                           (''file_path'', Str ''uploads/u0_empty.txt''),
                           (''file_type'', Str ''txt''), (''file_size'', Num 0),
                           (''content'', Str []), (''content_hash'', Null),
                           (''created_at'', Num 900), (''updated_at'', Num 900),
                           (''status'', Str ''processing'')]]\<rparr>,
               document_embeddings = \<lparr>columns = document_embeddings_columns, rows = []\<rparr>,
               search_logs = \<lparr>columns = search_logs_columns, rows = []\<rparr>\<rparr>
      in \<lparr>committed = t, session = t, files = [], uuid_next = 2, tasks = [],
          clock = 1000\<rparr>)"

section \<open>The search queries (database.py)\<close>

definition as_str :: "sqlval \<Rightarrow> string" where
  "as_str v = (case v of Str s \<Rightarrow> s | _ \<Rightarrow> [])"

definition missing_columns :: "table \<Rightarrow> string list \<Rightarrow> string list" where
  "missing_columns t cols = filter (\<lambda>c. \<not> has_column t c) cols"

text \<open>
  \<open>search_similar_documents\<close>: the join of documents and embeddings, the rows whose
  distance to the query embedding is below the threshold, by ascending distance,
  limited. A selected row is the tuple (id, filename, content, embedding, distance).
\<close>

definition search_similar_documents ::
  "env \<Rightarrow> tables \<Rightarrow> string \<Rightarrow> int \<Rightarrow> real \<Rightarrow> error + sqlval list list" where
  "search_similar_documents e db embedding_json limit threshold =
     (case missing_columns (documents db) [''id'', ''filename'', ''content'']
           @ missing_columns (document_embeddings db) [''embedding_vector'', ''document_id''] of
        c # cs \<Rightarrow> Inl (unknown_column c)
      | [] \<Rightarrow>
          (let joined =
                 concat (map (\<lambda>d. map (\<lambda>de. (d, de))
                                     (filter (\<lambda>de. col d ''id'' \<noteq> Null
                                                \<and> col d ''id'' = col de ''document_id'')
                                        (rows (document_embeddings db))))
                           (rows (documents db)));
               dist_of = (\<lambda>(d, de). distance e (as_str (col de ''embedding_vector'')) embedding_json);
               ordered = sort_key dist_of (filter (\<lambda>x. dist_of x < threshold) joined)
           in map_sum id
                (map (\<lambda>(d, de). [col d ''id'', col d ''filename'', col d ''content'',
                                 col de ''embedding_vector'', Flt (dist_of (d, de))]))
                (sql_limit limit ordered)))"

text \<open>
  \<open>full_text_search\<close>: the documents whose content matches the query, by descending
  relevance, limited. A selected row is the tuple (id, filename, content, relevance).
\<close>

definition full_text_search ::
  "env \<Rightarrow> tables \<Rightarrow> string \<Rightarrow> int \<Rightarrow> error + sqlval list list" where
  "full_text_search e db query limit =
     (case missing_columns (documents db) [''id'', ''filename'', ''content''] of
        c # cs \<Rightarrow> Inl (unknown_column c)
      | [] \<Rightarrow>
          (let relevance = (\<lambda>d. match_against e query (as_str (col d ''content'')));
               matching = filter (\<lambda>d. col d ''content'' \<noteq> Null \<and> relevance d \<noteq> 0)
                            (rows (documents db));
               ordered = sort_key (\<lambda>d. - relevance d) matching
           in map_sum id
                (map (\<lambda>d. [col d ''id'', col d ''filename'', col d ''content'',
                            Flt (relevance d)]))
                (sql_limit limit ordered)))"

section \<open>The search service (search.py)\<close>

record DocumentSearchRequest =
  query_rq :: string
  search_type_rq :: string
  limit_rq :: int
  threshold_rq :: real
  file_types_rq :: "FileType list option"
  date_from_rq :: "datetime option"
  date_to_rq :: "datetime option"

record DocumentSearchResponse =
  results_rs :: "DocumentSearchResult list"
  total_count_rs :: int
  search_type_rs :: string
  execution_time_ms_rs :: int
  query_rs :: string

text \<open>A loop that builds one result per row stops at the first row that raises.\<close>

fun collect :: "('a \<Rightarrow> error + 'b) \<Rightarrow> 'a list \<Rightarrow> error + 'b list" where
  "collect f [] = Inr []"
| "collect f (x # xs) =
     (case f x of
        Inl err \<Rightarrow> Inl err
      | Inr y \<Rightarrow> (case collect f xs of Inl err \<Rightarrow> Inl err | Inr ys \<Rightarrow> Inr (y # ys)))"

text \<open>\<open>doc[2][:500] + "..." if len(doc[2]) > 500 else doc[2]\<close>\<close>

definition truncate_content :: "string \<Rightarrow> string" where
  "truncate_content c = (if length c > 500 then take 500 c @ ''...'' else c)"

text \<open>
  The constructor of \<open>DocumentSearchResult\<close> validates its arguments: \<open>id\<close> and
  \<open>filename\<close> must be strings and \<open>created_at\<close> a \<open>datetime\<close> (a timestamp of the
  store is a \<open>Num\<close>, its point on the time line); \<open>None\<close> is refused for each of
  them. \<open>relevance_score\<close> must be a number or \<open>None\<close>. The content and the
  similarity score are passed as the string and the float the caller has computed.
\<close>

definition validation_error :: error where
  "validation_error = Error ValidationError ''validation error for DocumentSearchResult''"

definition DocumentSearchResult_init ::
  "sqlval \<Rightarrow> sqlval \<Rightarrow> string option \<Rightarrow> real option \<Rightarrow> sqlval \<Rightarrow> sqlval
     \<Rightarrow> error + DocumentSearchResult" where
  "DocumentSearchResult_init id_arg filename_arg content_arg similarity_arg relevance_arg
       created_at_arg =
     (case (id_arg, filename_arg, created_at_arg) of
        (Str i, Str f, Num t) \<Rightarrow>
          (case relevance_arg of
             Str x \<Rightarrow> Inl validation_error
           | Null \<Rightarrow>
               Inr \<lparr>id_sr = i, filename_sr = f, content_sr = content_arg,
                    similarity_score = similarity_arg, relevance_score = None,
                    created_at_sr = t\<rparr>
           | Flt x \<Rightarrow>
               Inr \<lparr>id_sr = i, filename_sr = f, content_sr = content_arg,
                    similarity_score = similarity_arg, relevance_score = Some x,
                    created_at_sr = t\<rparr>
           | Num n \<Rightarrow>
               Inr \<lparr>id_sr = i, filename_sr = f, content_sr = content_arg,
                    similarity_score = similarity_arg, relevance_score = Some (of_int n),
                    created_at_sr = t\<rparr>)
      | _ \<Rightarrow> Inl validation_error)"

text \<open>
  One result of \<open>_vector_search\<close>. The arguments are evaluated first (reading the
  tuple, \<open>len\<close> of the content, \<open>1 - doc[4]\<close>), then the constructor runs.
  \<open>created_at\<close> is \<open>doc[5]\<close> when the row has more than five columns and \<open>None\<close>
  otherwise.
\<close>

fun vector_result :: "env \<Rightarrow> sqlval list \<Rightarrow> error + DocumentSearchResult" where
  "vector_result e (d0 # d1 # d2 # d3 # d4 # rest) =
     (case d2 of
        Str c \<Rightarrow>
          (case (case d4 of Flt x \<Rightarrow> Some x | Num n \<Rightarrow> Some (of_int n) | _ \<Rightarrow> None) of
             Some dst \<Rightarrow>
               DocumentSearchResult_init d0 d1 (Some (truncate_content c))
                 (Some (float_sub (arith e) 1 dst)) Null
                 (case rest of [] \<Rightarrow> Null | d5 # ds \<Rightarrow> d5)
           | None \<Rightarrow> Inl (Error TypeError ''unsupported operand type(s) for -''))
      | _ \<Rightarrow> Inl (Error TypeError ''object has no len()''))"
| "vector_result e doc = Inl (Error IndexError ''tuple index out of range'')"

text \<open>
  One result of \<open>_fulltext_search\<close>: \<open>created_at\<close> is \<open>doc[4]\<close> when the row has
  more than four columns and \<open>None\<close> otherwise.
\<close>

fun fulltext_result :: "sqlval list \<Rightarrow> error + DocumentSearchResult" where
  "fulltext_result (d0 # d1 # d2 # d3 # rest) =
     (case d2 of
        Str c \<Rightarrow>
          DocumentSearchResult_init d0 d1 (Some (truncate_content c)) None d3
            (case rest of [] \<Rightarrow> Null | d4 # ds \<Rightarrow> d4)
      | _ \<Rightarrow> Inl (Error TypeError ''object has no len()''))"
| "fulltext_result doc = Inl (Error IndexError ''tuple index out of range'')"

text \<open>The search queries open their own connection: they read the committed tables.\<close>

definition vector_search ::
  "env \<Rightarrow> world \<Rightarrow> string \<Rightarrow> int \<Rightarrow> real \<Rightarrow> error + DocumentSearchResult list" where
  "vector_search e w query limit threshold =
     (case encode e query of
        Inl err \<Rightarrow> Inl err
      | Inr query_embedding_list \<Rightarrow>
          (case search_similar_documents e (committed w) query_embedding_list limit threshold of
             Inl err \<Rightarrow> Inl err
           | Inr similar_docs \<Rightarrow> collect (vector_result e) similar_docs))"

definition fulltext_search ::
  "env \<Rightarrow> world \<Rightarrow> string \<Rightarrow> int \<Rightarrow> error + DocumentSearchResult list" where
  "fulltext_search e w query limit =
     (case full_text_search e (committed w) query limit of
        Inl err \<Rightarrow> Inl err
      | Inr search_results \<Rightarrow> collect fulltext_result search_results)"

definition hybrid_search ::
  "env \<Rightarrow> world \<Rightarrow> string \<Rightarrow> int \<Rightarrow> real \<Rightarrow> error + DocumentSearchResult list" where
  "hybrid_search e w query limit threshold =
     (case vector_search e w query (limit * 2) threshold of
        Inl err \<Rightarrow> Inl err
      | Inr vector_results \<Rightarrow>
          (case fulltext_search e w query (limit * 2) of
             Inl err \<Rightarrow> Inl err
           | Inr fulltext_results \<Rightarrow>
               Inr (fuse (arith e) vector_results fulltext_results limit)))"

subsection \<open>Post-filters\<close>

text \<open>
  The comprehension \<open>[r for r in results if r.file_type in request.file_types]\<close> reads
  the attribute \<open>file_type\<close> of the first result; \<open>DocumentSearchResult\<close> declares no
  such field, so the read raises. On an empty list nothing is read.
\<close>

definition filter_by_file_types ::
  "DocumentSearchResult list \<Rightarrow> FileType list \<Rightarrow> error + DocumentSearchResult list" where
  "filter_by_file_types results file_types =
     (case results of
        [] \<Rightarrow> Inr []
      | r # rs \<Rightarrow>
          Inl (Error AttributeError
                 ''DocumentSearchResult object has no attribute file_type''))"

text \<open>
  \<open>_filter_by_date\<close>. The test \<open>if result.created_at\<close> holds of every result (a
  \<open>datetime\<close> is true); \<open>date_from\<close> and \<open>date_to\<close> count when they are given.
\<close>

fun filter_by_date ::
  "DocumentSearchResult list \<Rightarrow> datetime option \<Rightarrow> datetime option
     \<Rightarrow> DocumentSearchResult list" where
  "filter_by_date [] date_from date_to = []"
| "filter_by_date (res # results) date_from date_to =
     (if (case date_from of None \<Rightarrow> False | Some f \<Rightarrow> created_at_sr res < f)
        then filter_by_date results date_from date_to
      else if (case date_to of None \<Rightarrow> False | Some u \<Rightarrow> created_at_sr res > u)
        then filter_by_date results date_from date_to
      else res # filter_by_date results date_from date_to)"

text \<open>The truth value of an optional \<open>datetime\<close>: it is given or it is \<open>None\<close>.\<close>

definition given :: "'a option \<Rightarrow> bool" where
  "given x = (case x of None \<Rightarrow> False | Some v \<Rightarrow> True)"

definition post_filter ::
  "DocumentSearchRequest \<Rightarrow> DocumentSearchResult list \<Rightarrow> error + DocumentSearchResult list" where
  "post_filter request results =
     (case (if file_types_rq request \<noteq> None \<and> file_types_rq request \<noteq> Some []
            then filter_by_file_types results (the (file_types_rq request))
            else Inr results) of
        Inl err \<Rightarrow> Inl err
      | Inr results1 \<Rightarrow>
          Inr (if given (date_from_rq request) \<or> given (date_to_rq request)
               then filter_by_date results1 (date_from_rq request) (date_to_rq request)
               else results1))"

subsection \<open>The audit log\<close>

definition log_insert_statement :: string where
  "log_insert_statement =
     ''INSERT INTO search_logs (id, query, search_type, results_count, execution_time_ms) VALUES (:id, :query, :search_type, :results_count, :execution_time_ms)''"

text \<open>
  \<open>_log_search\<close> assigns the statement text to its parameter \<open>query\<close> before it builds
  the parameters of the statement, and passes the statement to \<open>execute\<close> as a plain
  string. Any failure is caught: the function returns the state and raises nothing.
\<close>

definition log_search :: "env \<Rightarrow> world \<Rightarrow> string \<Rightarrow> string \<Rightarrow> int \<Rightarrow> int \<Rightarrow> world" where
  "log_search e w query search_type results_count execution_time_ms =
     (let (log_id, w1) = uuid4 e w;
          query = log_insert_statement
      in case (if execute_accepts_str e
               then sql_insert (clock w1)
                      [(''id'', Str log_id),
                       (''query'', Str query),
                       (''search_type'', Str search_type),
                       (''results_count'', Num results_count),
                       (''execution_time_ms'', Num execution_time_ms)]
                      (search_logs (session w1))
               else Inl (Error ArgumentError
                           ''Textual SQL expression should be explicitly declared as text'')) of
           Inl err \<Rightarrow> w1
         | Inr t \<Rightarrow> commit (w1\<lparr>session := (session w1)\<lparr>search_logs := t\<rparr>\<rparr>))"

subsection \<open>\<open>search_documents\<close>\<close>

text \<open>An \<open>HTTPException\<close> passes; any other exception becomes a 500.\<close>

definition http_error :: "error \<Rightarrow> error" where
  "http_error err =
     (case exc_class_of err of
        HTTPException code \<Rightarrow> err
      | _ \<Rightarrow> Error (HTTPException 500) (str_of_error err))"

definition search_mode ::
  "env \<Rightarrow> world \<Rightarrow> DocumentSearchRequest \<Rightarrow> error + DocumentSearchResult list" where
  "search_mode e w request =
     (let search_type = lower (search_type_rq request)
      in if search_type = ''vector''
           then vector_search e w (query_rq request) (limit_rq request) (threshold_rq request)
         else if search_type = ''fulltext''
           then fulltext_search e w (query_rq request) (limit_rq request)
         else if search_type = ''hybrid''
           then hybrid_search e w (query_rq request) (limit_rq request) (threshold_rq request)
         else Inl (Error (HTTPException 400)
                     ''Invalid search type. Use 'vector', 'fulltext', or 'hybrid' ''))"

text \<open>The response that \<open>search_documents\<close> returns for the filtered results.\<close>

definition search_response ::
  "DocumentSearchRequest \<Rightarrow> DocumentSearchResult list \<Rightarrow> int \<Rightarrow> DocumentSearchResponse" where
  "search_response request results execution_time_ms =
     \<lparr>results_rs = py_take (limit_rq request) results,
      total_count_rs = int (length results),
      search_type_rs = lower (search_type_rq request),
      execution_time_ms_rs = execution_time_ms,
      query_rs = query_rq request\<rparr>"

definition search_documents ::
  "env \<Rightarrow> world \<Rightarrow> DocumentSearchRequest \<Rightarrow> (error + DocumentSearchResponse) \<times> world" where
  "search_documents e w request =
     (case search_mode e w request of
        Inl err \<Rightarrow> (Inl (http_error err), w)
      | Inr results0 \<Rightarrow>
          (case post_filter request results0 of
             Inl err \<Rightarrow> (Inl (http_error err), w)
           | Inr results \<Rightarrow>
               (let search_type = lower (search_type_rq request);
                    execution_time_ms = elapsed_ms e;
                    w' = log_search e w (query_rq request) search_type
                           (int (length results)) execution_time_ms
                in (Inr (search_response request results execution_time_ms), w'))))"

subsection \<open>An example corpus\<close>

definition ex_doc :: "string \<Rightarrow> string \<Rightarrow> row" where
  "ex_doc i c =
     [(''id'', Str i), (''filename'', Str (i @ ''.txt'')), (''file_path'', Str (''uploads/'' @ i)),
      (''file_type'', Str ''txt''), (''file_size'', Num (int (length c))),
      (''content'', Str c), (''content_hash'', Str (''h'' @ c)),
      (''created_at'', Num 900), (''updated_at'', Num 900)]"

definition ex_embedding :: "string \<Rightarrow> string \<Rightarrow> string \<Rightarrow> row" where
  "ex_embedding i d v =
     [(''id'', Str i), (''document_id'', Str d), (''embedding_vector'', Str v),
      (''embedding_model'', Str ''all-MiniLM-L6-v2''), (''created_at'', Num 900)]"

text \<open>
  Three documents, two of them embedded. For the query \<open>hello\<close> the example
  collaborators of \<open>ex_env\<close> put \<open>d1\<close> at distance 0 and \<open>d2\<close> at distance 1/2, and
  match \<open>d1\<close> and \<open>d3\<close> with relevance 1.
\<close>

definition ex_corpus :: tables where
  "ex_corpus =
     \<lparr>documents = \<lparr>columns = documents_columns,
                    rows = [ex_doc ''d1'' ''hello'', ex_doc ''d2'' ''world'',
                            ex_doc ''d3'' ''hello'']\<rparr>,
      document_embeddings =
        \<lparr>columns = document_embeddings_columns,
         rows = [ex_embedding ''e1'' ''d1'' ''[hello]'', ex_embedding ''e2'' ''d2'' ''[world]'']\<rparr>,
      search_logs = \<lparr>columns = search_logs_columns, rows = []\<rparr>\<rparr>"

definition ex_search_world :: world where
  "ex_search_world =
     \<lparr>committed = ex_corpus, session = ex_corpus, files = [], uuid_next = 0, tasks = [],
      clock = 1000\<rparr>"

definition ex_request ::
  "string \<Rightarrow> string \<Rightarrow> int \<Rightarrow> FileType list option \<Rightarrow> DocumentSearchRequest" where
  "ex_request q mode n fts =
     \<lparr>query_rq = q, search_type_rq = mode, limit_rq = n, threshold_rq = 7 / 10,
      file_types_rq = fts, date_from_rq = None, date_to_rq = None\<rparr>"

section \<open>The polling helper (workflow_orchestrator.py, \<open>_wait_for_processing\<close>)\<close>

text \<open>
  Time is counted in whole seconds since \<open>start_time\<close>. The state the helper's session
  sees changes while it waits (the background task runs in between): \<open>world_at t\<close> is
  the state \<open>t\<close> seconds after the start. A status query takes no time and
  \<open>asyncio.sleep(2)\<close> takes two seconds, so the polls happen at 0, 2, 4, ... seconds.
  The attribute \<open>seconds\<close> of a time difference is its seconds within the day: the
  elapsed seconds modulo 86400.

  The loop has no bound of its own, so the model counts its iterations down from
  \<open>fuel\<close>: \<open>None\<close> means that the loop is still running when the fuel is used up.
\<close>

fun wait_for_processing ::
  "nat \<Rightarrow> (nat \<Rightarrow> world) \<Rightarrow> string \<Rightarrow> int \<Rightarrow> nat \<Rightarrow> (error + DocumentStatus) option" where
  "wait_for_processing 0 world_at document_id timeout elapsed = None"
| "wait_for_processing (Suc fuel) world_at document_id timeout elapsed =
     (if int (elapsed mod 86400) < timeout
      then (case get_document_status (world_at elapsed) document_id of
              Inl err \<Rightarrow> Some (Inl err)
            | Inr status \<Rightarrow>
                if DocumentStatus_value status \<in> set [''completed'', ''failed'']
                then Some (Inr status)
                else wait_for_processing fuel world_at document_id timeout (elapsed + 2))
      else Some (Inl (Error TimeoutError ''Document processing timeout'')))"

text \<open>A poll that finds the document neither completed nor failed.\<close>

definition still_processing :: "world \<Rightarrow> string \<Rightarrow> bool" where
  "still_processing w document_id =
     (case get_document_status w document_id of
        Inl err \<Rightarrow> False
      | Inr status \<Rightarrow> status = PENDING \<or> status = PROCESSING)"

text \<open>
  An example history: the document \<open>d1\<close> of \<open>ex_world_with_status\<close> is in status
  \<open>processing\<close> for the first four seconds and in the given status from then on.
\<close>

definition ex_world_at :: "string \<Rightarrow> nat \<Rightarrow> world" where
  "ex_world_at final t =
     (if t < 4 then ex_world_with_status
      else (case set_status ex_world_with_status ''d1'' final of
              Inl err \<Rightarrow> ex_world_with_status
            | Inr w \<Rightarrow> commit w))"

subsection \<open>Example results, the example log, and the date range as a predicate\<close>

text \<open>
  Results as a row with a \<open>created_at\<close> column would give them; the queries of
  \<open>database.py\<close> select no such column.
\<close>

definition ex_result :: "string \<Rightarrow> string \<Rightarrow> real option \<Rightarrow> real option \<Rightarrow> DocumentSearchResult" where
  "ex_result i c v f =
     \<lparr>id_sr = i, filename_sr = i @ ''.txt'', content_sr = Some c, similarity_score = v,
      relevance_score = f, created_at_sr = 900\<rparr>"

text \<open>The tables after one full-text search that found nothing.\<close>

definition ex_logged_tables :: tables where
  "ex_logged_tables =
     ex_corpus\<lparr>search_logs :=
       \<lparr>columns = search_logs_columns,
        rows = [[(''id'', Str ''u0''), (''query'', Str log_insert_statement),
                 (''search_type'', Str ''fulltext''), (''results_count'', Num 0),
                 (''execution_time_ms'', Num 7), (''user_id'', Null),
                 (''created_at'', Num 1000)]]\<rparr>\<rparr>"

text \<open>The test \<open>_filter_by_date\<close> applies to one result.\<close>

definition in_date_range :: "datetime option \<Rightarrow> datetime option \<Rightarrow> DocumentSearchResult \<Rightarrow> bool" where
  "in_date_range date_from date_to r =
     ((case date_from of None \<Rightarrow> True | Some f \<Rightarrow> f \<le> created_at_sr r)
      \<and> (case date_to of None \<Rightarrow> True | Some u \<Rightarrow> created_at_sr r \<le> u))"

section \<open>Properties of the hybrid fusion\<close>

subsection \<open>The insertion-ordered dictionary\<close>









subsection \<open>Entries of the combined dictionary\<close>

















subsection \<open>What the fusion returns\<close>

















text \<open>
  The order of the results follows the machine's rounding, not the real numbers: the
  code computes 0.5 * 0.6 as 0.3 and 0.75 * 0.4 as 0.30000000000000004, and so
  ranks the second document first; so does the fusion.
\<close>

lemma fuse_follows_rounding:
  "fuse ex_arith [sr ''x'' (Some (1 / 2)) None] [sr ''y'' None (Some (3 / 4))] 1 =
     [sr ''y'' (Some (5404319552844596 / 18014398509481984)) (Some (3 / 4))]"
  by (simp add: fuse_def py_take_def sort_by_score_desc_def hybrid_results_def
        combined_results_def sr_def hybrid_score_def score_or_0_def ex_arith_def
        float_0_6_def float_0_4_def)

text \<open>A list that holds a document once gives it the score of that entry.\<close>

lemma vector_score_of_single:
  "filter (\<lambda>r. id_sr r = doc_id) rs = [r] \<Longrightarrow> similarity_score r = Some v
     \<Longrightarrow> vector_score_of rs doc_id = v"
  by (simp add: vector_score_of_def score_or_0_def)

lemma fulltext_score_of_single:
  "filter (\<lambda>r. id_sr r = doc_id) rs = [r] \<Longrightarrow> relevance_score r = Some f
     \<Longrightarrow> fulltext_score_of rs doc_id = f"
  by (simp add: fulltext_score_of_def score_or_0_def)

section \<open>Properties of the document processor\<close>

lemmas store_defs = sql_insert_def sql_update_def sql_select_def has_column_def col_def
  unknown_column_def documents_columns_def document_embeddings_columns_def
  search_logs_columns_def init_db_def commit_def uuid4_def opt_str_def truthy_def

lemmas processor_defs = process_document_def get_file_type_def save_file_def
  extract_text_def store_document_def failed_to_process_def FileType_of_value_def
  generate_embeddings_def embed_and_complete_def set_status_def run_task_def
  get_document_status_def DocumentStatus_of_value_def
  lower_def path_suffix_def path_name_def lower_char_def

lemmas example_defs = ex_env_def ex_world_def ex_uuid_of_def ex_world_with_status_def

lemma lower_suffix_ex: "lower (path_suffix ''report.DOCX'') = ''.docx''"
  by code_simp

lemma get_file_type_ex: "get_file_type ''a.txt'' = Inr TXT"
  by (simp add: processor_defs)

lemma upload_ex:
  "process_document ex_env ex_world ''hello'' ''a.txt'' =
     (Inr \<lparr>id_dr = ''u1'', filename_dr = ''a.txt'',
           file_path_dr = ''uploads/u0_a.txt'', file_type_dr = TXT,
           file_size_dr = 5, content_dr = Some ''hello'',
           content_hash_dr = Some ''hhello'', status_dr = PROCESSING,
           created_at_dr = 1000, updated_at_dr = 1000\<rparr>,
      (let t = init_db\<lparr>documents :=
                 \<lparr>columns = documents_columns,
                  rows = [[(''id'', Str ''u1''), (''filename'', Str ''a.txt''),
                           (''file_path'', Str ''uploads/u0_a.txt''),
                           (''file_type'', Str ''txt''), (''file_size'', Num 5),
                           (''content'', Str ''hello''),
                           (''content_hash'', Str ''hhello''),
                           (''created_at'', Num 1000), (''updated_at'', Num 1000)]]\<rparr>\<rparr>
       in \<lparr>committed = t, session = t, files = [(''uploads/u0_a.txt'', ''hello'')],
           uuid_next = 2, tasks = [(''u1'', Some ''hello'')], clock = 1000\<rparr>))"
  by (simp add: processor_defs store_defs example_defs Let_def)

subsection \<open>Unsupported file types\<close>

text \<open>
  C4. A file name whose extension (\<open>Path(filename).suffix.lower()\<close>) is none of
  \<open>.pdf\<close>, \<open>.txt\<close>, \<open>.png\<close>, \<open>.jpg\<close>, \<open>.jpeg\<close> makes \<open>process_document\<close>
  raise to its caller, and leaves the whole state as it was: no row, no saved file, no
  background task.
\<close>

theorem unsupported_extension_rejected:
  assumes "lower (path_suffix filename) \<notin> set [''.pdf'', ''.txt'', ''.png'', ''.jpg'', ''.jpeg'']"
  shows "process_document e w file_content filename =
           (Inl (Error PlainException
                   (''Failed to process document: Unsupported file type: ''
                      @ lower (path_suffix filename))), w)"
proof -
  from assms have "get_file_type filename =
      Inl (Error ValueError (''Unsupported file type: '' @ lower (path_suffix filename)))"
    by (simp add: get_file_type_def Let_def)
  then show ?thesis
    by (simp add: process_document_def failed_to_process_def)
qed

theorem unsupported_extension_rejected_witness:
  "lower (path_suffix ''report.DOCX'') \<notin> set [''.pdf'', ''.txt'', ''.png'', ''.jpg'', ''.jpeg'']
   \<and> process_document ex_env ex_world ''data'' ''report.DOCX'' =
       (Inl (Error PlainException ''Failed to process document: Unsupported file type: .docx''),
        ex_world)"
proof -
  have n: "lower (path_suffix ''report.DOCX'')
             \<notin> set [''.pdf'', ''.txt'', ''.png'', ''.jpg'', ''.jpeg'']"
    by (simp add: lower_suffix_ex)
  from unsupported_extension_rejected[OF n, of ex_env ex_world "''data''"] n
  show ?thesis by (simp add: lower_suffix_ex)
qed

subsection \<open>The status of a document\<close>

lemma get_document_status_no_column:
  assumes "\<not> has_column (documents (session w)) ''status''"
  shows "get_document_status w document_id = Inl (unknown_column ''status'')"
  using assms by (simp add: get_document_status_def sql_select_def)

lemma set_status_no_column:
  assumes "\<not> has_column (documents (session w)) ''status''"
  shows "set_status w document_id s = Inl (unknown_column ''status'')"
  using assms by (simp add: set_status_def sql_update_def)

lemma init_db_no_status: "\<not> has_column (documents init_db) ''status''"
  by (simp add: has_column_def init_db_def documents_columns_def)

lemma sql_insert_columns: "sql_insert n vals t = Inr t' \<Longrightarrow> columns t' = columns t"
  by (auto simp: sql_insert_def Let_def split: list.splits if_splits)

lemma store_document_columns:
  "store_document w d dd p = Inr w' \<Longrightarrow>
     columns (documents (session w')) = columns (documents (session w))"
  by (auto simp: store_document_def commit_def split: sum.splits dest: sql_insert_columns)

text \<open>An upload never adds a column: what the table lacks before, it lacks after.\<close>

lemma process_document_columns:
  "columns (documents (session (snd (process_document e w c f)))) =
     columns (documents (session w))"
  by (auto simp: process_document_def save_file_def uuid4_def Let_def
           split: sum.splits prod.splits dest: store_document_columns)

text \<open>
  On a table without \<open>status\<close> column the background task changes neither the
  \<open>documents\<close> table nor anything committed, however it ends: both status updates
  fail, and nothing is committed before the first of them.
\<close>

lemma generate_embeddings_no_status_column:
  assumes "\<not> has_column (documents (session w)) ''status''"
  shows "documents (session (generate_embeddings e w document_id content))
           = documents (session w)
         \<and> committed (generate_embeddings e w document_id content) = committed w"
  using assms
  by (auto simp: generate_embeddings_def embed_and_complete_def uuid4_def Let_def
                 set_status_no_column
           split: sum.splits prod.splits)

lemma status_never_readable_after_task:
  assumes "\<not> has_column (documents (session w)) ''status''"
  shows "get_document_status (generate_embeddings e w document_id content) d
           = Inl (unknown_column ''status'')"
  using generate_embeddings_no_status_column[OF assms, of e document_id content]
  by (simp add: get_document_status_no_column assms)

text \<open>
  C3. An accepted upload is inserted and committed before \<open>process_document\<close> returns,
  and the response says \<open>processing\<close>; but the row has no status (the table of
  \<open>init_db\<close> has no such column and the insert names none), and a status query for the
  new id fails instead of reporting \<open>processing\<close>.
\<close>

theorem status_query_after_upload_fails:
  "fst (process_document ex_env ex_world ''hello'' ''a.txt'') =
     Inr \<lparr>id_dr = ''u1'', filename_dr = ''a.txt'',
          file_path_dr = ''uploads/u0_a.txt'', file_type_dr = TXT,
          file_size_dr = 5, content_dr = Some ''hello'',
          content_hash_dr = Some ''hhello'', status_dr = PROCESSING,
          created_at_dr = 1000, updated_at_dr = 1000\<rparr>
   \<and> rows (documents (committed (snd (process_document ex_env ex_world ''hello'' ''a.txt'')))) =
       [[(''id'', Str ''u1''), (''filename'', Str ''a.txt''),
         (''file_path'', Str ''uploads/u0_a.txt''),
         (''file_type'', Str ''txt''), (''file_size'', Num 5),
         (''content'', Str ''hello''), (''content_hash'', Str ''hhello''),
         (''created_at'', Num 1000), (''updated_at'', Num 1000)]]
   \<and> get_document_status (snd (process_document ex_env ex_world ''hello'' ''a.txt'')) ''u1''
       = Inl (Error OperationalError ''Unknown column status'')"
  unfolding upload_ex snd_conv fst_conv
  by (simp add: Let_def init_db_def get_document_status_def sql_select_def
        has_column_def documents_columns_def unknown_column_def)

text \<open>The same for every upload into a table without \<open>status\<close> column.\<close>

lemma status_query_after_any_upload:
  assumes "\<not> has_column (documents (session w)) ''status''"
  shows "get_document_status (snd (process_document e w file_content filename)) d
           = Inl (unknown_column ''status'')"
  using assms process_document_columns[of e w file_content filename]
  by (simp add: get_document_status_no_column has_column_def)

text \<open>
  C2. For empty or missing content the background task returns at its guard: it
  generates no embedding and raises nothing, and it leaves the state as it found it, so
  the document's status is not set to \<open>completed\<close> (nor to anything else).
\<close>

theorem empty_content_leaves_state_unchanged:
  assumes "\<not> truthy content"
  shows "generate_embeddings e w document_id content = w"
  using assms by (simp add: generate_embeddings_def)

theorem empty_content_leaves_state_unchanged_witness:
  "\<not> truthy (Some [])
   \<and> generate_embeddings ex_env ex_world_with_status ''d1'' (Some []) = ex_world_with_status
   \<and> get_document_status (generate_embeddings ex_env ex_world_with_status ''d1'' (Some [])) ''d1''
       = Inr PROCESSING"
proof -
  have t: "\<not> truthy (Some [])" by (simp add: truthy_def)
  have s: "get_document_status ex_world_with_status ''d1'' = Inr PROCESSING"
    by (simp add: get_document_status_def sql_select_def has_column_def col_def
          ex_world_with_status_def documents_columns_def DocumentStatus_of_value_def Let_def)
  from empty_content_leaves_state_unchanged[OF t, of ex_env ex_world_with_status "''d1''"] t s
  show ?thesis by simp
qed

lemma upload_boom_ex:
  "process_document ex_env ex_world ''boom'' ''b.txt'' =
     (Inr \<lparr>id_dr = ''u1'', filename_dr = ''b.txt'',
           file_path_dr = ''uploads/u0_b.txt'', file_type_dr = TXT,
           file_size_dr = 4, content_dr = Some ''boom'',
           content_hash_dr = Some ''hboom'', status_dr = PROCESSING,
           created_at_dr = 1000, updated_at_dr = 1000\<rparr>,
      (let t = init_db\<lparr>documents :=
                 \<lparr>columns = documents_columns,
                  rows = [[(''id'', Str ''u1''), (''filename'', Str ''b.txt''),
                           (''file_path'', Str ''uploads/u0_b.txt''),
                           (''file_type'', Str ''txt''), (''file_size'', Num 4),
                           (''content'', Str ''boom''),
                           (''content_hash'', Str ''hboom''),
                           (''created_at'', Num 1000), (''updated_at'', Num 1000)]]\<rparr>\<rparr>
       in \<lparr>committed = t, session = t, files = [(''uploads/u0_b.txt'', ''boom'')],
           uuid_next = 2, tasks = [(''u1'', Some ''boom'')], clock = 1000\<rparr>))"
  by (simp add: processor_defs store_defs example_defs Let_def)

text \<open>
  C7. When the embedding model raises, the task catches the exception and raises
  nothing; but on the table of \<open>init_db\<close> its update to \<open>failed\<close> fails too and is
  passed over: the state after the task is the state before it, and the status is not
  \<open>failed\<close>.
\<close>

theorem embedding_failure_not_recorded:
  "encode ex_env ''boom'' = Inl (Error CollaboratorError ''out of memory'')
   \<and> run_task ex_env (snd (process_document ex_env ex_world ''boom'' ''b.txt''))
       = (snd (process_document ex_env ex_world ''boom'' ''b.txt''))\<lparr>tasks := []\<rparr>
   \<and> get_document_status
         (run_task ex_env (snd (process_document ex_env ex_world ''boom'' ''b.txt''))) ''u1''
       = Inl (Error OperationalError ''Unknown column status'')"
  unfolding upload_boom_ex snd_conv
  by (simp add: Let_def run_task_def generate_embeddings_def
        embed_and_complete_def set_status_def sql_update_def truthy_def ex_env_def
        init_db_def get_document_status_def sql_select_def
        has_column_def documents_columns_def unknown_column_def)

text \<open>Where the table has a \<open>status\<close> column, the same failure is recorded.\<close>

lemma embedding_failure_recorded_with_status_column:
  "get_document_status
     (generate_embeddings ex_env ex_world_with_status ''d1'' (Some ''boom'')) ''d1''
     = Inr FAILED"
  by (simp add: generate_embeddings_def embed_and_complete_def set_status_def sql_update_def
        truthy_def ex_env_def ex_world_with_status_def commit_def
        get_document_status_def sql_select_def has_column_def col_def
        documents_columns_def DocumentStatus_of_value_def Let_def)

subsection \<open>File names with a directory part\<close>

text \<open>
  A file name with a directory part is accepted by its extension, but the file cannot
  be written: \<open>process_document\<close> raises, and no row is stored.
\<close>

lemma process_document_directory_part:
  assumes "CHR ''/'' \<in> set filename"
  shows "\<exists>err. fst (process_document e w file_content filename) = Inl err"
    and "committed (snd (process_document e w file_content filename)) = committed w"
    and "files (snd (process_document e w file_content filename)) = files w"
  using assms
  by (auto simp: process_document_def save_file_def uuid4_def Let_def split: sum.splits)

lemma process_document_directory_part_ex:
  "process_document ex_env ex_world ''data'' ''dir/a.txt'' =
     (Inl (Error PlainException
             ''Failed to process document: No such file or directory: uploads/u0_dir/a.txt''),
      ex_world\<lparr>uuid_next := 1\<rparr>)"
  by (simp add: processor_defs store_defs example_defs Let_def)

section \<open>Properties of the search service\<close>

subsection \<open>Sizes\<close>

lemma length_py_take_le: "length (py_take n xs) \<le> length xs"
  by (auto simp: py_take_def)


lemma map_sum_Inr: "map_sum id f x = Inr y \<Longrightarrow> \<exists>z. x = Inr z \<and> y = f z"
  by (cases x) auto






text \<open>
  \<open>_hybrid_search\<close> is the fusion of what its two sub-searches return, each asked for
  \<open>limit * 2\<close> candidates.
\<close>

lemma hybrid_search_fuses:
  assumes "vector_search e w query (limit * 2) threshold = Inr vs"
    and "fulltext_search e w query (limit * 2) = Inr fs"
  shows "hybrid_search e w query limit threshold = Inr (fuse (arith e) vs fs limit)"
  using assms by (simp add: hybrid_search_def)

lemma hybrid_search_Inr:
  assumes "hybrid_search e w query limit threshold = Inr rs"
  shows "\<exists>vs fs. vector_search e w query (limit * 2) threshold = Inr vs
           \<and> fulltext_search e w query (limit * 2) = Inr fs
           \<and> rs = fuse (arith e) vs fs limit"
  using assms by (auto simp: hybrid_search_def split: sum.splits)


subsection \<open>The rows of the two queries carry no \<open>created_at\<close>\<close>

text \<open>
  The queries of \<open>database.py\<close> select five and four columns, so both search
  functions pass \<open>created_at = None\<close> to the constructor, which refuses it: a search
  that finds a row raises, and a search that returns has found nothing.
\<close>

lemma DocumentSearchResult_init_no_created_at:
  "DocumentSearchResult_init i f c s r Null = Inl validation_error"
  by (simp add: DocumentSearchResult_init_def split: sqlval.splits)

lemma vector_result_five_columns: "\<exists>err. vector_result e [d0, d1, d2, d3, d4] = Inl err"
  by (simp add: DocumentSearchResult_init_no_created_at split: sqlval.splits option.splits)

lemma fulltext_result_four_columns: "\<exists>err. fulltext_result [d0, d1, d2, d3] = Inl err"
  by (simp add: DocumentSearchResult_init_no_created_at split: sqlval.splits)

lemma collect_first_fails:
  assumes "collect f xs = Inr ys" and "\<And>x. x \<in> set xs \<Longrightarrow> \<exists>err. f x = Inl err"
  shows "xs = [] \<and> ys = []"
proof (cases xs)
  case Nil
  with assms(1) show ?thesis by simp
next
  case (Cons x xs')
  from assms(2)[of x] Cons obtain err where "f x = Inl err" by auto
  with assms(1) Cons show ?thesis by simp
qed

lemma vector_search_returns_nothing:
  assumes "vector_search e w q n th = Inr rs"
  shows "rs = []"
proof -
  from assms obtain emb rws where
    s: "search_similar_documents e (committed w) emb n th = Inr rws" and
    c: "collect (vector_result e) rws = Inr rs"
    by (auto simp: vector_search_def split: sum.splits)
  from s obtain ordered :: "(row \<times> row) list" and z where
    "rws = map (\<lambda>(d, de). [col d ''id'', col d ''filename'', col d ''content'',
                            col de ''embedding_vector'',
                            Flt (distance e (as_str (col de ''embedding_vector'')) emb)]) z"
    by (auto simp: search_similar_documents_def Let_def split: list.splits dest!: map_sum_Inr)
  then have "\<And>x. x \<in> set rws \<Longrightarrow> \<exists>err. vector_result e x = Inl err"
    using vector_result_five_columns by auto
  from collect_first_fails[OF c this] show ?thesis by simp
qed

lemma fulltext_search_returns_nothing:
  assumes "fulltext_search e w q n = Inr rs"
  shows "rs = []"
proof -
  from assms obtain rws where
    s: "full_text_search e (committed w) q n = Inr rws" and
    c: "collect fulltext_result rws = Inr rs"
    by (auto simp: fulltext_search_def split: sum.splits)
  from s obtain z :: "row list" where
    "rws = map (\<lambda>d. [col d ''id'', col d ''filename'', col d ''content'',
                      Flt (match_against e q (as_str (col d ''content'')))]) z"
    by (auto simp: full_text_search_def Let_def split: list.splits dest!: map_sum_Inr)
  then have "\<And>x. x \<in> set rws \<Longrightarrow> \<exists>err. fulltext_result x = Inl err"
    using fulltext_result_four_columns by auto
  from collect_first_fails[OF c this] show ?thesis by simp
qed

lemma fuse_nothing: "fuse a [] [] limit = []"
  by (simp add: fuse_def hybrid_results_def combined_results_def sort_by_score_desc_def
        py_take_def)

lemma hybrid_search_returns_nothing:
  assumes "hybrid_search e w q n th = Inr rs"
  shows "rs = []"
proof -
  from hybrid_search_Inr[OF assms] obtain vs fs where
    v: "vector_search e w q (n * 2) th = Inr vs" and
    f: "fulltext_search e w q (n * 2) = Inr fs" and
    r: "rs = fuse (arith e) vs fs n"
    by blast
  from vector_search_returns_nothing[OF v] fulltext_search_returns_nothing[OF f] r
  show ?thesis by (simp add: fuse_nothing)
qed

subsection \<open>Runs on the example worlds\<close>

lemmas search_defs = search_documents_def search_mode_def post_filter_def given_def
  filter_by_file_types_def log_search_def http_error_def hybrid_search_def
  vector_search_def fulltext_search_def search_similar_documents_def
  full_text_search_def missing_columns_def sql_limit_def as_str_def
  truncate_content_def DocumentSearchResult_init_def validation_error_def
  search_response_def

lemmas corpus_defs = ex_search_world_def ex_corpus_def ex_doc_def ex_embedding_def
  ex_request_def ex_env_def ex_uuid_of_def ex_arith_def

lemma lower_fulltext: "lower ''fulltext'' = ''fulltext''"
  by (simp add: lower_def lower_char_def)


text \<open>
  On the example corpus the full-text query for \<open>hello\<close> selects two rows, and building
  the first result raises; the query for \<open>nothing\<close> selects no row.
\<close>

lemma ex_fulltext_rows:
  "full_text_search ex_env ex_corpus ''hello'' 2 =
     Inr [[Str ''d1'', Str ''d1.txt'', Str ''hello'', Flt 1],
          [Str ''d3'', Str ''d3.txt'', Str ''hello'', Flt 1]]"
  by (simp add: search_defs corpus_defs store_defs Let_def)

lemma ex_fulltext_search_raises:
  "fulltext_search ex_env ex_search_world ''hello'' 2 = Inl validation_error"
  using ex_fulltext_rows
  by (simp add: fulltext_search_def ex_search_world_def DocumentSearchResult_init_def)

lemma ex_fulltext_search_nothing:
  "fulltext_search ex_env ex_search_world ''nothing'' 2 = Inr []"
  by (simp add: search_defs corpus_defs store_defs Let_def)

lemma ex_search_mode_raises:
  "search_mode ex_env ex_search_world (ex_request ''hello'' ''fulltext'' 2 fts)
     = Inl validation_error"
  using ex_fulltext_search_raises
  by (simp add: search_mode_def lower_fulltext ex_request_def)

lemma ex_search_mode_nothing:
  "search_mode ex_env ex_search_world (ex_request ''nothing'' ''fulltext'' 2 fts) = Inr []"
  using ex_fulltext_search_nothing
  by (simp add: search_mode_def lower_fulltext ex_request_def)

lemma ex_log_search:
  "log_search ex_env ex_search_world ''nothing'' ''fulltext'' 0 7 =
     ex_search_world\<lparr>committed := ex_logged_tables, session := ex_logged_tables, uuid_next := 1\<rparr>"
  by (simp add: log_search_def uuid4_def sql_insert_def has_column_def col_def commit_def
        search_logs_columns_def ex_logged_tables_def ex_search_world_def ex_corpus_def
        ex_env_def ex_uuid_of_def Let_def)

lemma ex_search_documents_nothing:
  "search_documents ex_env ex_search_world (ex_request ''nothing'' ''fulltext'' 2 None) =
     (Inr \<lparr>results_rs = [], total_count_rs = 0, search_type_rs = ''fulltext'',
           execution_time_ms_rs = 7, query_rs = ''nothing''\<rparr>,
      ex_search_world\<lparr>committed := ex_logged_tables, session := ex_logged_tables,
                      uuid_next := 1\<rparr>)"
proof -
  have p: "post_filter (ex_request ''nothing'' ''fulltext'' 2 None) [] = Inr []"
    by (simp add: post_filter_def given_def ex_request_def)
  have q: "query_rq (ex_request ''nothing'' ''fulltext'' 2 None) = ''nothing''"
    "search_type_rq (ex_request ''nothing'' ''fulltext'' 2 None) = ''fulltext''"
    "limit_rq (ex_request ''nothing'' ''fulltext'' 2 None) = 2"
    "elapsed_ms ex_env = 7"
    by (simp_all add: ex_request_def ex_env_def)
  show ?thesis
    unfolding search_documents_def ex_search_mode_nothing
    by (simp add: p q lower_fulltext ex_log_search search_response_def py_take_def Let_def)
qed

subsection \<open>The size of what the hybrid search returns\<close>






subsection \<open>The post-filters\<close>

lemma filter_by_date_filter:
  "filter_by_date results date_from date_to = filter (in_date_range date_from date_to) results"
  by (induction results) (auto simp: in_date_range_def split: option.splits)

lemma filter_by_date_idem:
  "filter_by_date (filter_by_date results f u) f u = filter_by_date results f u"
  by (simp add: filter_by_date_filter)

lemma length_filter_by_date: "length (filter_by_date results f u) \<le> length results"
  by (simp add: filter_by_date_filter)

lemma post_filter_length:
  "post_filter request results0 = Inr results \<Longrightarrow> length results \<le> length results0"
  by (auto simp: post_filter_def given_def filter_by_file_types_def length_filter_by_date
           split: sum.splits list.splits if_splits)

text \<open>Without a file-type filter the post-filter is the date filter.\<close>

lemma post_filter_no_file_types:
  assumes "file_types_rq request = None \<or> file_types_rq request = Some []"
  shows "post_filter request results =
           Inr (if given (date_from_rq request) \<or> given (date_to_rq request)
                then filter (in_date_range (date_from_rq request) (date_to_rq request)) results
                else results)"
  using assms by (auto simp: post_filter_def given_def filter_by_date_filter)

text \<open>With one, it raises on every list that is not empty.\<close>

lemma post_filter_file_types_raises:
  assumes "file_types_rq request = Some (ft # fts)" and "results \<noteq> []"
  shows "post_filter request results =
           Inl (Error AttributeError ''DocumentSearchResult object has no attribute file_type'')"
  using assms by (cases results) (simp_all add: post_filter_def given_def filter_by_file_types_def)

subsection \<open>The response\<close>


lemma search_mode_returns_nothing:
  assumes "search_mode e w request = Inr results"
  shows "results = []"
  using assms
  by (auto simp: search_mode_def Let_def split: if_splits
           dest: vector_search_returns_nothing fulltext_search_returns_nothing
                 hybrid_search_returns_nothing)

lemma search_documents_Inr:
  assumes "search_documents e w request = (Inr response, w')"
  shows "\<exists>results0 results.
           search_mode e w request = Inr results0
           \<and> post_filter request results0 = Inr results
           \<and> response = search_response request results (elapsed_ms e)"
  using assms
  by (auto simp: search_documents_def Let_def split: sum.splits)

lemma search_response_counts:
  "total_count_rs (search_response request results t) = int (length results)
   \<and> results_rs (search_response request results t) = py_take (limit_rq request) results
   \<and> int (length (results_rs (search_response request results t)))
        \<le> total_count_rs (search_response request results t)"
  by (simp add: search_response_def length_py_take_le)


text \<open>
  Since a search that returns has found nothing, every response that
  \<open>search_documents\<close> gives is empty.
\<close>

lemma search_documents_returns_nothing:
  assumes "search_documents e w request = (Inr response, w')"
  shows "results_rs response = [] \<and> total_count_rs response = 0"
proof -
  from search_documents_Inr[OF assms] obtain results0 results where
    m: "search_mode e w request = Inr results0" and
    p: "post_filter request results0 = Inr results" and
    r: "response = search_response request results (elapsed_ms e)"
    by blast
  from search_mode_returns_nothing[OF m] post_filter_length[OF p] have "results = []" by simp
  with r show ?thesis by (simp add: search_response_def py_take_def)
qed




text \<open>
  C6. A search with a file-type filter whose mode finds documents does not return a
  filtered list. Here the full-text query selects two rows: building the first result
  raises, and the request ends in a 500. And the filter itself, applied to the two
  results such rows would give with a \<open>created_at\<close>, raises too: it reads
  \<open>file_type\<close>, which no search result has.
\<close>

theorem file_type_filter_raises:
  "search_mode ex_env ex_search_world (ex_request ''hello'' ''fulltext'' 2 (Some [TXT]))
     = Inl validation_error
   \<and> search_documents ex_env ex_search_world (ex_request ''hello'' ''fulltext'' 2 (Some [TXT])) =
       (Inl (Error (HTTPException 500) ''validation error for DocumentSearchResult''),
        ex_search_world)
   \<and> post_filter (ex_request ''hello'' ''fulltext'' 2 (Some [TXT]))
        [ex_result ''d1'' ''hello'' None (Some 1), ex_result ''d3'' ''hello'' None (Some 1)]
       = Inl (Error AttributeError ''DocumentSearchResult object has no attribute file_type'')"
proof (intro conjI)
  show "search_mode ex_env ex_search_world (ex_request ''hello'' ''fulltext'' 2 (Some [TXT]))
          = Inl validation_error"
    by (rule ex_search_mode_raises)
  show "search_documents ex_env ex_search_world
          (ex_request ''hello'' ''fulltext'' 2 (Some [TXT])) =
       (Inl (Error (HTTPException 500) ''validation error for DocumentSearchResult''),
        ex_search_world)"
    unfolding search_documents_def ex_search_mode_raises
    by (simp add: http_error_def validation_error_def)
  show "post_filter (ex_request ''hello'' ''fulltext'' 2 (Some [TXT]))
        [ex_result ''d1'' ''hello'' None (Some 1), ex_result ''d3'' ''hello'' None (Some 1)]
       = Inl (Error AttributeError ''DocumentSearchResult object has no attribute file_type'')"
    by (simp add: post_filter_def given_def filter_by_file_types_def ex_request_def)
qed

text \<open>
  C9. A search for \<open>nothing\<close>, which matches no document, returns its empty response
  and writes one row to the audit log: the row holds the mode, the result count and
  the execution time, but its \<open>query\<close> column holds the text of the insert statement,
  not the query of the request.
\<close>

theorem search_log_holds_statement_text:
  "fst (search_documents ex_env ex_search_world (ex_request ''nothing'' ''fulltext'' 2 None)) =
     Inr \<lparr>results_rs = [], total_count_rs = 0, search_type_rs = ''fulltext'',
          execution_time_ms_rs = 7, query_rs = ''nothing''\<rparr>
   \<and> rows (search_logs (committed
      (snd (search_documents ex_env ex_search_world (ex_request ''nothing'' ''fulltext'' 2 None))))) =
     [[(''id'', Str ''u0''), (''query'', Str log_insert_statement),
       (''search_type'', Str ''fulltext''), (''results_count'', Num 0),
       (''execution_time_ms'', Num 7), (''user_id'', Null), (''created_at'', Num 1000)]]
   \<and> query_rq (ex_request ''nothing'' ''fulltext'' 2 None) = ''nothing''
   \<and> log_insert_statement \<noteq> ''nothing''"
  unfolding ex_search_documents_nothing snd_conv fst_conv
  by (simp add: ex_logged_tables_def ex_request_def log_insert_statement_def)

text \<open>The logged row never depends on the query of the request.\<close>

lemma log_search_ignores_query:
  "log_search e w query search_type n t = log_search e w query' search_type n t"
  by (simp add: log_search_def)

text \<open>
  Where \<open>execute\<close> refuses a plain string, or the insert fails, nothing is logged, and
  the failure does not reach the search: the response is computed from the committed
  tables alone, whatever the session holds.
\<close>

lemma log_search_str_refused:
  assumes "\<not> execute_accepts_str e"
  shows "log_search e w query search_type n t = w\<lparr>uuid_next := uuid_next w + 1\<rparr>"
  using assms by (simp add: log_search_def uuid4_def)

lemma log_search_failure_swallowed:
  assumes "\<not> has_column (search_logs (session w)) ''query''"
  shows "log_search e w query search_type n t = w\<lparr>uuid_next := uuid_next w + 1\<rparr>"
  using assms by (simp add: log_search_def uuid4_def sql_insert_def)

lemma search_response_despite_log_failure:
  "fst (search_documents e (w\<lparr>session := s\<rparr>) request) = fst (search_documents e w request)"
  by (simp add: search_documents_def search_mode_def vector_search_def fulltext_search_def
        hybrid_search_def Let_def split: sum.splits)

section \<open>Properties of the polling helper\<close>

lemma terminal_iff:
  "DocumentStatus_value s \<in> set [''completed'', ''failed''] \<longleftrightarrow> s = COMPLETED \<or> s = FAILED"
  by (cases s) simp_all

lemma still_processing_poll:
  assumes "still_processing w d"
  obtains s where "get_document_status w d = Inr s"
    "DocumentStatus_value s \<notin> set [''completed'', ''failed'']"
  using assms unfolding still_processing_def
  by (cases "get_document_status w d") auto

lemma wait_times_out:
  assumes "2 * int k < 86400" and "timeout \<le> 86398" and "timeout \<le> 2 * int (k + fuel)"
    and "\<And>j. k \<le> j \<Longrightarrow> 2 * int j < timeout \<Longrightarrow> still_processing (world_at (2 * j)) d"
  shows "wait_for_processing (Suc fuel) world_at d timeout (2 * k)
           = Some (Inl (Error TimeoutError ''Document processing timeout''))"
  using assms
proof (induction fuel arbitrary: k)
  case 0
  then have "\<not> int (2 * k mod 86400) < timeout" by simp
  then show ?case by simp
next
  case (Suc fuel)
  show ?case
  proof (cases "2 * int k < timeout")
    case False
    with Suc.prems(1) have "\<not> int (2 * k mod 86400) < timeout" by simp
    then show ?thesis by simp
  next
    case True
    with Suc.prems(1) have c: "int (2 * k mod 86400) < timeout" by simp
    from Suc.prems(4)[of k] True have "still_processing (world_at (2 * k)) d" by simp
    then obtain s where s: "get_document_status (world_at (2 * k)) d = Inr s"
      "DocumentStatus_value s \<notin> set [''completed'', ''failed'']"
      by (rule still_processing_poll)
    from True Suc.prems(2) have k1: "2 * int (Suc k) < 86400" by simp
    have "wait_for_processing (Suc fuel) world_at d timeout (2 * Suc k)
            = Some (Inl (Error TimeoutError ''Document processing timeout''))"
    proof (rule Suc.IH[OF k1 Suc.prems(2)])
      show "timeout \<le> 2 * int (Suc k + fuel)" using Suc.prems(3) by simp
    next
      fix j assume "Suc k \<le> j" "2 * int j < timeout"
      then show "still_processing (world_at (2 * j)) d" using Suc.prems(4)[of j] by simp
    qed
    moreover have "wait_for_processing (Suc (Suc fuel)) world_at d timeout (2 * k)
             = wait_for_processing (Suc fuel) world_at d timeout (2 * k + 2)"
      using c s by (simp del: set_simps)
    ultimately show ?thesis by simp
  qed
qed

lemma wait_returns_status:
  assumes "2 * int (k + n) < timeout" and "timeout \<le> 86398" and "n \<le> fuel"
    and "\<And>j. k \<le> j \<Longrightarrow> j < k + n \<Longrightarrow> still_processing (world_at (2 * j)) d"
    and "get_document_status (world_at (2 * (k + n))) d = Inr s"
    and "s = COMPLETED \<or> s = FAILED"
  shows "wait_for_processing (Suc fuel) world_at d timeout (2 * k) = Some (Inr s)"
  using assms
proof (induction n arbitrary: k fuel)
  case 0
  from 0(1,2) have c: "int (2 * k mod 86400) < timeout" by simp
  from 0(6) have "DocumentStatus_value s \<in> set [''completed'', ''failed'']"
    by (simp only: terminal_iff)
  moreover from 0(5) have "get_document_status (world_at (2 * k)) d = Inr s" by simp
  ultimately show ?case using c by (simp del: set_simps)
next
  case (Suc n)
  from Suc.prems(1,2) have c: "int (2 * k mod 86400) < timeout" by simp
  from Suc.prems(4)[of k] have "still_processing (world_at (2 * k)) d" by simp
  then obtain s' where s': "get_document_status (world_at (2 * k)) d = Inr s'"
    "DocumentStatus_value s' \<notin> set [''completed'', ''failed'']"
    by (rule still_processing_poll)
  from Suc.prems(3) obtain fuel' where f: "fuel = Suc fuel'" "n \<le> fuel'"
    by (cases fuel) auto
  have "wait_for_processing (Suc fuel') world_at d timeout (2 * Suc k) = Some (Inr s)"
  proof (rule Suc.IH[OF _ Suc.prems(2) f(2) _ _ Suc.prems(6)])
    show "2 * int (Suc k + n) < timeout" using Suc.prems(1) by simp
  next
    fix j assume "Suc k \<le> j" "j < Suc k + n"
    then show "still_processing (world_at (2 * j)) d" using Suc.prems(4)[of j] by simp
  next
    show "get_document_status (world_at (2 * (Suc k + n))) d = Inr s"
      using Suc.prems(5) by simp
  qed
  moreover have "wait_for_processing (Suc fuel) world_at d timeout (2 * k)
           = wait_for_processing fuel world_at d timeout (2 * k + 2)"
    using c s' by (simp del: set_simps)
  ultimately show ?case using f by simp
qed

text \<open>
  With a timeout of a whole day or more the loop condition never fails, since
  \<open>seconds\<close> stays below 86400: on a document that stays in processing the helper
  is still polling after any number of rounds.
\<close>

lemma wait_never_times_out:
  assumes "86400 \<le> timeout" and "\<And>t. still_processing (world_at t) d"
  shows "wait_for_processing fuel world_at d timeout elapsed = None"
proof (induction fuel arbitrary: elapsed)
  case 0
  show ?case by simp
next
  case (Suc fuel)
  have "elapsed mod 86400 < 86400" by simp
  with assms(1) have c: "int (elapsed mod 86400) < timeout" by linarith
  from assms(2)[of elapsed] obtain s where
    "get_document_status (world_at elapsed) d = Inr s"
    "DocumentStatus_value s \<notin> set [''completed'', ''failed'']"
    by (rule still_processing_poll)
  with c Suc.IH show ?case by (simp del: set_simps)
qed

text \<open>
  C8. The helper polls the status at 0, 2, 4, ... seconds. When a poll before the
  timeout finds the document completed or failed, after polls that found it still
  processing, the helper returns that status: a \<open>failed\<close> status is a return value.
  When every poll before the timeout finds the document still processing, the helper
  raises \<open>TimeoutError\<close>. This holds for every timeout of less than a day (the default
  is 60), and the loop ends within \<open>timeout / 2\<close> rounds.
\<close>

theorem wait_for_processing_outcomes:
  assumes "timeout \<le> 86398" and "timeout \<le> 2 * int fuel"
  shows "((\<forall>j<k. still_processing (world_at (2 * j)) d)
            \<and> 2 * int k < timeout
            \<and> get_document_status (world_at (2 * k)) d = Inr s
            \<and> (s = COMPLETED \<or> s = FAILED)
          \<longrightarrow> wait_for_processing (Suc fuel) world_at d timeout 0 = Some (Inr s))
         \<and> ((\<forall>j. 2 * int j < timeout \<longrightarrow> still_processing (world_at (2 * j)) d)
          \<longrightarrow> wait_for_processing (Suc fuel) world_at d timeout 0
                = Some (Inl (Error TimeoutError ''Document processing timeout'')))"
proof (intro conjI impI)
  assume a: "(\<forall>j<k. still_processing (world_at (2 * j)) d)
            \<and> 2 * int k < timeout
            \<and> get_document_status (world_at (2 * k)) d = Inr s
            \<and> (s = COMPLETED \<or> s = FAILED)"
  with assms(2) have kf: "k \<le> fuel" by simp
  have "wait_for_processing (Suc fuel) world_at d timeout (2 * 0) = Some (Inr s)"
  proof (rule wait_returns_status[where n = k, OF _ assms(1) kf])
    show "2 * int (0 + k) < timeout" using a by simp
    show "\<And>j. 0 \<le> j \<Longrightarrow> j < 0 + k \<Longrightarrow> still_processing (world_at (2 * j)) d"
      using a by simp
    show "get_document_status (world_at (2 * (0 + k))) d = Inr s" using a by simp
    show "s = COMPLETED \<or> s = FAILED" using a by simp
  qed
  then show "wait_for_processing (Suc fuel) world_at d timeout 0 = Some (Inr s)" by simp
next
  assume a: "\<forall>j. 2 * int j < timeout \<longrightarrow> still_processing (world_at (2 * j)) d"
  have "wait_for_processing (Suc fuel) world_at d timeout (2 * 0)
          = Some (Inl (Error TimeoutError ''Document processing timeout''))"
  proof (rule wait_times_out[OF _ assms(1)])
    show "2 * int 0 < 86400" by simp
    show "timeout \<le> 2 * int (0 + fuel)" using assms(2) by simp
    show "\<And>j. 0 \<le> j \<Longrightarrow> 2 * int j < timeout \<Longrightarrow> still_processing (world_at (2 * j)) d"
      using a by simp
  qed
  then show "wait_for_processing (Suc fuel) world_at d timeout 0
                = Some (Inl (Error TimeoutError ''Document processing timeout''))" by simp
qed

text \<open>The example history: two polls find \<open>processing\<close>, the third finds \<open>failed\<close>.\<close>

lemma ex_status_processing: "get_document_status ex_world_with_status ''d1'' = Inr PROCESSING"
  by (simp add: get_document_status_def sql_select_def has_column_def col_def
        ex_world_with_status_def documents_columns_def DocumentStatus_of_value_def Let_def)

lemma ex_still_processing: "still_processing ex_world_with_status ''d1''"
  by (simp add: still_processing_def ex_status_processing)

lemma ex_status_failed_later:
  "get_document_status (ex_world_at ''failed'' 4) ''d1'' = Inr FAILED"
  by (simp add: ex_world_at_def set_status_def sql_update_def commit_def
        get_document_status_def sql_select_def has_column_def col_def
        ex_world_with_status_def documents_columns_def DocumentStatus_of_value_def Let_def)

lemma ex_world_at_early: "t < 4 \<Longrightarrow> ex_world_at final t = ex_world_with_status"
  by (simp add: ex_world_at_def)

theorem wait_for_processing_outcomes_witness:
  "wait_for_processing (Suc 30) (ex_world_at ''failed'') ''d1'' 60 0 = Some (Inr FAILED)
   \<and> wait_for_processing (Suc 30) (\<lambda>t. ex_world_with_status) ''d1'' 60 0
       = Some (Inl (Error TimeoutError ''Document processing timeout''))"
proof
  have h: "(60 :: int) \<le> 86398" "(60 :: int) \<le> 2 * int 30" by simp_all
  have p: "\<forall>j<2. still_processing (ex_world_at ''failed'' (2 * j)) ''d1''"
  proof (intro allI impI)
    fix j :: nat assume "j < 2"
    then have "2 * j < 4" by simp
    then show "still_processing (ex_world_at ''failed'' (2 * j)) ''d1''"
      by (simp only: ex_world_at_early ex_still_processing)
  qed
  have q: "get_document_status (ex_world_at ''failed'' (2 * 2)) ''d1'' = Inr FAILED"
    using ex_status_failed_later by simp
  from wait_for_processing_outcomes[OF h, of 2 "ex_world_at ''failed''" "''d1''" FAILED] p q
  show "wait_for_processing (Suc 30) (ex_world_at ''failed'') ''d1'' 60 0 = Some (Inr FAILED)"
    by simp
next
  have h: "(60 :: int) \<le> 86398" "(60 :: int) \<le> 2 * int 30" by simp_all
  from wait_for_processing_outcomes[OF h, of 0 "\<lambda>t. ex_world_with_status" "''d1''" PENDING]
    ex_still_processing
  show "wait_for_processing (Suc 30) (\<lambda>t. ex_world_with_status) ''d1'' 60 0
       = Some (Inl (Error TimeoutError ''Document processing timeout''))"
    by simp
qed

end
